theory Spec2Isabelle
  imports Complex_Main "HOL-Library.AList" "HOL-Library.Sublist"
begin

section \<open>Webpage phishing detector: the content risk-scoring engine\<close>

text \<open>
  A shallow embedding of \<^verbatim>\<open>page_phishing.py\<close> (class \<^verbatim>\<open>WebpagePhishingDetector\<close>) and of
  the red-flag assembly of \<^verbatim>\<open>page_api.py\<close>.

  Conventions of the embedding.
  \<^item> A Python \<^verbatim>\<open>int\<close> is an \<open>int\<close>. A Python \<^verbatim>\<open>float\<close> is a \<open>rat\<close>: the arithmetic is
    exact, the rounding of IEEE doubles is not part of the model. Float literals such as
    \<^verbatim>\<open>0.35\<close> denote the decimal fraction they are written as.
  \<^item> A Python \<^verbatim>\<open>str\<close> is a \<open>string\<close> of ASCII characters.
  \<^item> A Python \<^verbatim>\<open>dict\<close> whose iteration order is observed is an association list in
    insertion order; \<^verbatim>\<open>d[k] = v\<close> is \<open>AList.update k v d\<close> (a present key keeps its place,
    a new key is appended).
  \<^item> Python's builtin \<^verbatim>\<open>min(a, b)\<close> is \<open>min a b\<close>.
\<close>

subsection \<open>Strings\<close>

text \<open>\<^verbatim>\<open>needle in haystack\<close> on strings: the needle occurs as a contiguous substring.\<close>

fun str_in :: "string \<Rightarrow> string \<Rightarrow> bool" where
  "str_in needle [] = (needle = [])"
| "str_in needle (c # cs) = (prefix needle (c # cs) \<or> str_in needle cs)"

text \<open>\<^verbatim>\<open>str.lower()\<close> on ASCII: the letters A to Z are moved to a to z.\<close>

definition lower_char :: "char \<Rightarrow> char" where
  "lower_char c =
     (case map_of (zip ''ABCDEFGHIJKLMNOPQRSTUVWXYZ'' ''abcdefghijklmnopqrstuvwxyz'') c of
        Some l \<Rightarrow> l | None \<Rightarrow> c)"

definition lower :: "string \<Rightarrow> string" where
  "lower s = map lower_char s"

text \<open>\<^verbatim>\<open>s.split(sep)\<close> for a separator of one character: never the empty list.\<close>

fun split_char :: "char \<Rightarrow> string \<Rightarrow> string list" where
  "split_char sep [] = [[]]"
| "split_char sep (c # cs) =
     (if c = sep then [] # split_char sep cs
      else (c # hd (split_char sep cs)) # tl (split_char sep cs))"

text \<open>\<^verbatim>\<open>s.find(c)\<close> and \<^verbatim>\<open>s.rfind(c)\<close> for one character: an index, or -1.\<close>

fun find_char :: "char \<Rightarrow> string \<Rightarrow> int" where
  "find_char c [] = -1"
| "find_char c (x # xs) =
     (if x = c then 0 else (let i = find_char c xs in if i = -1 then -1 else i + 1))"

definition rfind_char :: "char \<Rightarrow> string \<Rightarrow> int" where
  "rfind_char c s =
     (let i = find_char c (rev s) in if i = -1 then -1 else int (length s) - 1 - i)"

text \<open>The slice \<^verbatim>\<open>s[i:j]\<close> for \<open>0 \<le> i\<close> and \<open>0 \<le> j\<close>.\<close>

definition slice :: "string \<Rightarrow> int \<Rightarrow> int \<Rightarrow> string" where
  "slice s i j = take (nat j - nat i) (drop (nat i) s)"

subsection \<open>The feature record\<close>

text \<open>
  The dataclass \<^verbatim>\<open>WebpageFeatures\<close>. \<^verbatim>\<open>title\<close> is \<^verbatim>\<open>soup.title.string\<close>, which is
  \<^verbatim>\<open>None\<close> for a title element without a single string child, hence an option.
\<close>

record WebpageFeatures =
  title :: "string option"
  forms_count :: int
  input_fields :: "string list"
  suspicious_keywords :: "string list"
  popup_indicators :: int
  ads_count :: int
  suspicious_elements :: "string list"
  text_content :: string
  meta_description :: string
  javascript_suspicious :: bool
  iframe_count :: int
  hidden_elements :: int
  urgency_indicators :: int
  social_engineering_signals :: "string list"
  form_actions :: "string list"
  suspicious_scripts :: "string list"

subsection \<open>The heuristic scorer\<close>

text \<open>
  \<^verbatim>\<open>calculate_content_risk_score\<close> threads two local variables, \<^verbatim>\<open>risk_score\<close> and
  \<^verbatim>\<open>risk_factors\<close>, through eleven guarded blocks. Each block has the shape
  \<^verbatim>\<open>if cond: risk_factors[name] = v; risk_score += v\<close>, which is \<open>add_factor\<close> on the
  pair of the two variables.
\<close>

type_synonym scorer_state = "rat \<times> (string \<times> rat) list"

definition add_factor :: "bool \<Rightarrow> string \<Rightarrow> rat \<Rightarrow> scorer_state \<Rightarrow> scorer_state" where
  "add_factor cond name v st =
     (if cond then (fst st + v, AList.update name v (snd st)) else st)"

record HeuristicScore =
  total_risk_score :: rat
  risk_factors :: "(string \<times> rat) list"

definition password_fields_of :: "WebpageFeatures \<Rightarrow> string list" where
  "password_fields_of features = filter (str_in ''password'') (input_fields features)"

definition calculate_content_risk_score :: "WebpageFeatures \<Rightarrow> HeuristicScore" where
  "calculate_content_risk_score features =
     (let st0 = (0, []);
          st1 = add_factor (forms_count features > 0) ''forms_present''
                  (min (of_int (forms_count features) * 0.35) 0.7) st0;
          st2 = add_factor (password_fields_of features \<noteq> []) ''password_fields'' 0.6 st1;
          st3 = add_factor (suspicious_keywords features \<noteq> []) ''suspicious_keywords''
                  (min (of_nat (length (suspicious_keywords features)) * 0.15) 0.6) st2;
          st4 = add_factor (social_engineering_signals features \<noteq> []) ''social_engineering''
                  (min (of_nat (length (social_engineering_signals features)) * 0.25) 0.7) st3;
          st5 = add_factor (urgency_indicators features > 0) ''urgency_tactics''
                  (min (of_int (urgency_indicators features) * 0.2) 0.5) st4;
          st6 = add_factor (javascript_suspicious features) ''suspicious_javascript'' 0.2 st5;
          st7 = add_factor (popup_indicators features > 0) ''popups''
                  (min (of_int (popup_indicators features) * 0.25) 0.5) st6;
          st8 = add_factor (hidden_elements features > 5) ''hidden_elements''
                  (min (of_int (hidden_elements features - 5) * 0.1) 0.4) st7;
          st9 = add_factor (iframe_count features > 0) ''iframes''
                  (min (of_int (iframe_count features) * 0.1) 0.2) st8;
          st10 = add_factor (ads_count features > 5) ''excessive_ads''
                  (min (of_int (ads_count features - 5) * 0.06) 0.2) st9;
          st11 = add_factor (suspicious_elements features \<noteq> []) ''suspicious_elements''
                  (min (of_nat (length (suspicious_elements features)) * 0.2) 0.6) st10
      in \<lparr> total_risk_score = min (fst st11) 1.0, risk_factors = snd st11 \<rparr>)"

subsection \<open>The decision combiner\<close>

text \<open>
  Steps 5 to 7 of \<^verbatim>\<open>detect_webpage_phishing\<close>, as functions of the three numbers they read:
  the heuristic total, the model's \<^verbatim>\<open>phishing_likelihood\<close> and the reputation score.
\<close>

definition combined_score :: "rat \<Rightarrow> rat \<Rightarrow> rat \<Rightarrow> rat" where
  "combined_score content_score phishing_likelihood reputation_score =
     (let llm_score = phishing_likelihood / 100.0;
          combined = (content_score * 0.50) + (llm_score * 0.50)
      in if reputation_score = 0.0 then min combined 0.2
         else if reputation_score \<ge> 0.8 then min (combined + 0.2) 1.0
         else combined)"

definition decide_is_phishing :: "rat \<Rightarrow> bool" where
  "decide_is_phishing combined = (combined > 0.5)"

definition decide_confidence :: "rat \<Rightarrow> rat" where
  "decide_confidence combined = min (\<bar>combined - 0.5\<bar> * 2) 1.0 * 100"

subsection \<open>Sample inputs\<close>

text \<open>
  The feature record of the end-to-end scenario: 3 forms, one password input, 4 matched
  keywords, 3 hidden elements, one suspicious-element tag, everything else zero or empty.
\<close>

definition scenario_features :: WebpageFeatures where
  "scenario_features =
     \<lparr> title = None, forms_count = 3, input_fields = [''password:pass:''],
       suspicious_keywords = [''urgent'', ''verify'', ''suspend'', ''update''],
       popup_indicators = 0, ads_count = 0, suspicious_elements = [''password_fields:1''],
       text_content = [], meta_description = [], javascript_suspicious = False,
       iframe_count = 0, hidden_elements = 3, urgency_indicators = 0,
       social_engineering_signals = [], form_actions = [], suspicious_scripts = [] \<rparr>"

definition blank_features :: WebpageFeatures where
  "blank_features =
     \<lparr> title = None, forms_count = 0, input_fields = [], suspicious_keywords = [],
       popup_indicators = 0, ads_count = 0, suspicious_elements = [],
       text_content = [], meta_description = [], javascript_suspicious = False,
       iframe_count = 0, hidden_elements = 0, urgency_indicators = 0,
       social_engineering_signals = [], form_actions = [], suspicious_scripts = [] \<rparr>"

subsection \<open>Python values and exceptions\<close>

text \<open>
  An exception is its class and the text \<^verbatim>\<open>str(e)\<close>. A value decoded from JSON is a
  \<open>pyval\<close>; a JSON object keeps its members in order.
\<close>

datatype py_exception = ValueError string | KeyError string | TypeError string

datatype pyval =
    PNone
  | PBool bool
  | PInt int
  | PFloat rat
  | PStr string
  | PList "pyval list"
  | PDict "(string \<times> pyval) list"

subsection \<open>The document tree\<close>

text \<open>
  The parsed document, as BeautifulSoup hands it over. A \<open>Tag\<close> has a name, its
  attributes in order and its children. A \<open>NavigableString\<close> is a piece of page text. A
  \<open>SpecialString\<close> is a string that \<^verbatim>\<open>get_text()\<close> leaves out (a comment, or the body
  of a script or style element in the releases that type them apart); \<^verbatim>\<open>.string\<close> still
  reads it. The soup itself is the root \<open>Tag\<close>.
\<close>

datatype node =
    Tag string "(string \<times> string) list" "node list"
  | NavigableString string
  | SpecialString string

subsection \<open>The collaborators\<close>

datatype llm_reply = LLMError string | LLMText string

text \<open>
  What the detector does not compute itself, as fields of one record.
  \<^item> \<open>check_bracketed_host\<close>: the validation of an IP literal in square brackets by
    \<^verbatim>\<open>urllib.parse\<close>; \<open>Some msg\<close> when it raises \<^verbatim>\<open>ValueError(msg)\<close>.
  \<^item> \<open>fetch_and_parse\<close>: the body of \<^verbatim>\<open>scrape_webpage\<close>'s \<^verbatim>\<open>try\<close> block
    (\<^verbatim>\<open>requests.get\<close>, \<^verbatim>\<open>raise_for_status\<close>, the HTML parser); \<open>None\<close> when any of
    them raises.
  \<^item> \<open>re_search\<close>: \<open>re_search w pattern text\<close> holds when
    \<^verbatim>\<open>re.search(pattern, text, re.I)\<close> finds a match.
  \<^item> \<open>llm_generate\<close>: the call \<^verbatim>\<open>self.llm_client.generate(...)\<close> on the prompt built
    from the features, followed by \<^verbatim>\<open>response['response']\<close>: the raw text, or the
    text of the exception raised on the way.
  \<^item> \<open>json_loads\<close>: \<^verbatim>\<open>json.loads\<close>; \<open>Inl msg\<close> when it raises a decoding error.
  \<^item> \<open>now_isoformat\<close>: \<^verbatim>\<open>datetime.now().isoformat()\<close>.
\<close>

record World =
  check_bracketed_host :: "string \<Rightarrow> string option"
  fetch_and_parse :: "string \<Rightarrow> node option"
  re_search :: "string \<Rightarrow> string \<Rightarrow> bool"
  llm_generate :: "WebpageFeatures \<Rightarrow> llm_reply"
  json_loads :: "string \<Rightarrow> string + pyval"
  now_isoformat :: string

subsection \<open>The detector's configuration\<close>

text \<open>
  The attributes that \<^verbatim>\<open>__init__\<close> sets on \<^verbatim>\<open>self\<close>. The field for
  \<^verbatim>\<open>self.suspicious_keywords\<close> and its neighbours carry the prefix \<open>self_\<close>, since the
  feature record has fields of the same names.
\<close>

record Detector =
  self_suspicious_keywords :: "string list"
  self_social_engineering_phrases :: "string list"
  self_urgency_words :: "string list"
  self_trusted_domains :: "string set"
  self_suspicious_tlds :: "string set"

definition init_detector :: Detector where
  "init_detector =
     \<lparr> self_suspicious_keywords =
         [''urgent'', ''verify'', ''suspend'', ''update'', ''confirm'', ''security alert'',
          ''account blocked'', ''click here'', ''limited time'', ''act now'', ''winner'',
          ''congratulations'', ''free money'', ''inheritance'', ''lottery'', ''prize'',
          ''banking alert'', ''paypal'', ''amazon security'', ''microsoft support'',
          ''apple id'', ''google account'', ''facebook security'', ''twitter verification'',
          ''suspended'', ''expired'', ''immediate action'', ''verify identity'',
          ''claim now'', ''tax refund'', ''virus detected'', ''system infected''],
       self_social_engineering_phrases =
         [''verify your account'', ''confirm your identity'', ''update payment method'',
          ''suspicious activity'', ''unusual activity'', ''security breach'',
          ''account compromised'', ''click to verify'', ''avoid account suspension'',
          ''immediate response required'', ''act within 24 hours''],
       self_urgency_words =
         [''urgent'', ''immediately'', ''asap'', ''expire'', ''deadline'', ''last chance'',
          ''limited time'', ''hurry'', ''quick'', ''fast'', ''now or never'', ''today only''],
       self_trusted_domains =
         {''github.com'', ''youtube.com'', ''google.com'', ''gmail.com'',
          ''microsoft.com'', ''apple.com'', ''facebook.com'', ''twitter.com'',
          ''linkedin.com'', ''stackoverflow.com''},
       self_suspicious_tlds =
         {''xyz'', ''top'', ''tk'', ''gq'', ''cf'', ''ru'', ''cn'', ''bond''} \<rparr>"

subsection \<open>The domain reputation evaluator\<close>

text \<open>
  \<^verbatim>\<open>urlparse(url).netloc\<close>, after \<^verbatim>\<open>urlsplit\<close> of CPython 3.11 on ASCII text: leading
  control characters and spaces are dropped, tabs and line breaks removed, a scheme
  \<^verbatim>\<open>letter (letter | digit | + | - | .)* :\<close> is cut off, and if \<^verbatim>\<open>//\<close> follows, the netloc
  runs up to the first of \<^verbatim>\<open>/ ? #\<close>. Unbalanced square brackets raise \<^verbatim>\<open>ValueError\<close>.
\<close>

definition c0_control_or_space :: "char \<Rightarrow> bool" where
  "c0_control_or_space c = ((of_char c :: nat) \<le> 32)"

definition ascii_alpha :: "char \<Rightarrow> bool" where
  "ascii_alpha c =
     (c \<in> set ''abcdefghijklmnopqrstuvwxyzABCDEFGHIJKLMNOPQRSTUVWXYZ'')"

definition scheme_chars :: "char set" where
  "scheme_chars =
     set ''abcdefghijklmnopqrstuvwxyzABCDEFGHIJKLMNOPQRSTUVWXYZ0123456789+-.''"

definition strip_scheme :: "string \<Rightarrow> string" where
  "strip_scheme url =
     (let i = find_char CHR '':'' url
      in if i > 0 \<and> ascii_alpha (hd url) \<and> list_all (\<lambda>c. c \<in> scheme_chars) (take (nat i) url)
         then drop (nat i + 1) url else url)"

definition urlparse_netloc :: "World \<Rightarrow> string \<Rightarrow> py_exception + string" where
  "urlparse_netloc w url0 =
     (let url = dropWhile c0_control_or_space url0;
          url = filter (\<lambda>c. c \<notin> {CHR 0x09, CHR 0x0D, CHR 0x0A}) url;
          url = strip_scheme url
      in if take 2 url = ''//'' then
           (let netloc = takeWhile (\<lambda>c. c \<notin> {CHR ''/'', CHR ''?'', CHR ''#''}) (drop 2 url)
            in if (CHR ''['' \<in> set netloc \<and> CHR '']'' \<notin> set netloc) \<or>
                  (CHR '']'' \<in> set netloc \<and> CHR ''['' \<notin> set netloc)
               then Inl (ValueError ''Invalid IPv6 URL'')
               else if CHR ''['' \<in> set netloc \<and> CHR '']'' \<in> set netloc then
                 (case check_bracketed_host w
                         (takeWhile (\<lambda>c. c \<noteq> CHR '']'')
                            (drop 1 (dropWhile (\<lambda>c. c \<noteq> CHR ''['') netloc))) of
                    Some msg \<Rightarrow> Inl (ValueError msg)
                  | None \<Rightarrow> Inr netloc)
               else Inr netloc)
         else Inr [])"

record DomainReputation =
  domain :: string
  tld :: string
  reputation_score :: rat
  reputation_reason :: "string list"

definition get_domain_reputation ::
    "Detector \<Rightarrow> World \<Rightarrow> string \<Rightarrow> py_exception + DomainReputation" where
  "get_domain_reputation self w url =
     (case urlparse_netloc w url of
        Inl e \<Rightarrow> Inl e
      | Inr netloc \<Rightarrow>
          (let domain = lower netloc;
               domain = (if prefix ''www.'' domain then drop 4 domain else domain);
               reputation_score = 0.5;
               reputation_reason = [];
               trusted = (\<exists>td\<in>self_trusted_domains self. suffix td domain);
               reputation_score = (if trusted then 0.0 else reputation_score);
               reputation_reason =
                 (if trusted then reputation_reason @ [''trusted_domain'']
                  else reputation_reason);
               tld = last (split_char CHR ''.'' domain);
               suspicious = (tld \<in> self_suspicious_tlds self);
               reputation_score = (if suspicious then 0.8 else reputation_score);
               reputation_reason =
                 (if suspicious then reputation_reason @ [''suspicious_tld'']
                  else reputation_reason)
           in Inr \<lparr> domain = domain, tld = tld, reputation_score = reputation_score,
                    reputation_reason = reputation_reason \<rparr>))"

subsection \<open>Sample collaborators\<close>

text \<open>
  A world without network access: every fetch fails and the text-generation service
  cannot be reached. Its regular-expression engine is consulted on no text at all, and
  no pattern of the detector matches the empty string.
\<close>

definition offline_world :: World where
  "offline_world =
     \<lparr> check_bracketed_host = (\<lambda>host. Some ''invalid bracketed host''),
       fetch_and_parse = (\<lambda>url. None),
       re_search = (\<lambda>pattern text. False),
       llm_generate = (\<lambda>features. LLMError ''Failed to connect to Ollama''),
       json_loads = (\<lambda>text. Inl ''Expecting value: line 1 column 1 (char 0)''),
       now_isoformat = ''2025-01-01T00:00:00'' \<rparr>"

section \<open>Properties\<close>

subsection \<open>Strings\<close>

lemma str_in_sublist: "str_in needle hay = sublist needle hay"
  by (induction hay) (auto simp: sublist_Cons_right)

subsection \<open>The scorer's state\<close>

lemma add_factor_fst_nonneg:
  "(c \<Longrightarrow> 0 \<le> v) \<Longrightarrow> 0 \<le> fst st \<Longrightarrow> 0 \<le> fst (add_factor c n v st)"
  by (simp add: add_factor_def)

lemma map_of_add_factor:
  "map_of (snd (add_factor c n v st)) k =
     (if c \<and> k = n then Some v else map_of (snd st) k)"
  by (simp add: add_factor_def update_conv')

lemma set_update_subset: "set (AList.update k v al) \<subseteq> insert (k, v) (set al)"
  by (induction al) auto

lemma add_factor_values_pos:
  assumes "c \<Longrightarrow> 0 < v" and "\<forall>p\<in>set (snd st). 0 < snd p"
  shows "\<forall>p\<in>set (snd (add_factor c n v st)). 0 < snd p"
  using assms set_update_subset [of n v "snd st"] by (auto simp: add_factor_def)

lemma risk_score_nonneg: "0 \<le> total_risk_score (calculate_content_risk_score f)"
  unfolding calculate_content_risk_score_def Let_def
  by (simp, intro add_factor_fst_nonneg) simp_all

lemma risk_score_le_1: "total_risk_score (calculate_content_risk_score f) \<le> 1"
  by (simp add: calculate_content_risk_score_def Let_def)

lemma risk_factors_pos:
  "\<forall>p\<in>set (risk_factors (calculate_content_risk_score f)). 0 < snd p"
  unfolding calculate_content_risk_score_def Let_def
  by (simp, intro add_factor_values_pos) simp_all

lemma scenario_score:
  "calculate_content_risk_score scenario_features =
     \<lparr> total_risk_score = 1,
       risk_factors = [(''forms_present'', 0.7), (''password_fields'', 0.6),
                       (''suspicious_keywords'', 0.6), (''suspicious_elements'', 0.2)] \<rparr>"
  by (simp add: scenario_features_def calculate_content_risk_score_def Let_def
      add_factor_def password_fields_of_def)

subsection \<open>The trusted-domain cap\<close>

text \<open>
  Claim C1. Whatever the heuristic total and the model's phishing likelihood are, a
  reputation score of 0.0 (a trusted domain) caps the combined score at 0.2, and the
  verdict \<open>is_phishing\<close> is then false.
\<close>

theorem trusted_domain_cap:
  "reputation = 0.0 \<Longrightarrow>
     combined_score content_score phishing_likelihood reputation \<le> 0.2 \<and>
     \<not> decide_is_phishing (combined_score content_score phishing_likelihood reputation)"
  by (auto simp: combined_score_def decide_is_phishing_def Let_def min_def)

theorem trusted_domain_cap_witness:
  "combined_score 1 100 0 = 0.2 \<and> combined_score 1 100 0 \<le> 0.2 \<and>
   \<not> decide_is_phishing (combined_score 1 100 0)"
  using trusted_domain_cap [of 0 1 100] by (simp add: combined_score_def Let_def)

subsection \<open>The end-to-end scenario\<close>

text \<open>
  Claim C2. A feature record with 3 forms, one input descriptor and that one holding
  "password", 4 matched keywords, no social-engineering phrase, 0 urgency words, no
  suspicious JavaScript, 0 popups, 3 hidden elements, 0 iframes, 0 ads and one
  suspicious-element tag gets the factors 0.70, 0.60, 0.60 and 0.20, whose sum 2.10 is
  clamped to the total 1.0. With a model likelihood of 80 and the neutral reputation 0.5
  the combined score is 0.90, the verdict is phishing and the confidence is 80.
\<close>

theorem scenario_verdict:
  assumes "forms_count f = 3" and "input_fields f = [d]" and "str_in ''password'' d"
    and "length (suspicious_keywords f) = 4" and "social_engineering_signals f = []"
    and "urgency_indicators f = 0" and "\<not> javascript_suspicious f"
    and "popup_indicators f = 0" and "hidden_elements f = 3" and "iframe_count f = 0"
    and "ads_count f = 0" and "length (suspicious_elements f) = 1"
  shows "risk_factors (calculate_content_risk_score f) =
           [(''forms_present'', 0.70), (''password_fields'', 0.60),
            (''suspicious_keywords'', 0.60), (''suspicious_elements'', 0.20)] \<and>
         sum_list (map snd (risk_factors (calculate_content_risk_score f))) = 2.10 \<and>
         total_risk_score (calculate_content_risk_score f) = 1.0 \<and>
         combined_score (total_risk_score (calculate_content_risk_score f)) 80 0.5 = 0.90 \<and>
         decide_is_phishing
           (combined_score (total_risk_score (calculate_content_risk_score f)) 80 0.5) \<and>
         decide_confidence
           (combined_score (total_risk_score (calculate_content_risk_score f)) 80 0.5) = 80.0"
proof -
  have kw: "suspicious_keywords f \<noteq> []" and el: "suspicious_elements f \<noteq> []"
    using assms(4,12) by auto
  have score: "calculate_content_risk_score f =
      \<lparr> total_risk_score = 1,
        risk_factors = [(''forms_present'', 0.7), (''password_fields'', 0.6),
                        (''suspicious_keywords'', 0.6), (''suspicious_elements'', 0.2)] \<rparr>"
    using assms kw el
    by (simp add: calculate_content_risk_score_def Let_def add_factor_def
        password_fields_of_def)
  show ?thesis
    unfolding score
    by (simp add: combined_score_def decide_is_phishing_def decide_confidence_def Let_def)
qed

theorem scenario_verdict_witness:
  "forms_count scenario_features = 3 \<and> hidden_elements scenario_features = 3 \<and>
   input_fields scenario_features = [''password:pass:''] \<and>
   total_risk_score (calculate_content_risk_score scenario_features) = 1 \<and>
   combined_score (total_risk_score (calculate_content_risk_score scenario_features)) 80 0.5
     = 0.9 \<and>
   decide_is_phishing
     (combined_score (total_risk_score (calculate_content_risk_score scenario_features)) 80 0.5) \<and>
   decide_confidence
     (combined_score (total_risk_score (calculate_content_risk_score scenario_features)) 80 0.5)
     = 80"
proof -
  have "forms_count scenario_features = 3"
    "input_fields scenario_features = [''password:pass:'']"
    "str_in ''password'' ''password:pass:''"
    "length (suspicious_keywords scenario_features) = 4"
    "social_engineering_signals scenario_features = []"
    "urgency_indicators scenario_features = 0"
    "\<not> javascript_suspicious scenario_features"
    "popup_indicators scenario_features = 0" "hidden_elements scenario_features = 3"
    "iframe_count scenario_features = 0" "ads_count scenario_features = 0"
    "length (suspicious_elements scenario_features) = 1"
    by (simp_all add: scenario_features_def)
  from scenario_verdict [OF this] this show ?thesis by auto
qed

subsection \<open>Bounds of the heuristic total\<close>

text \<open>
  Claim C3. The total risk score of every feature record lies between 0 and 1. For a
  record whose counts are all zero, whose flag is false and whose lists are all empty,
  the total is 0 and the risk-factor map is empty.
\<close>

theorem total_risk_score_bounds:
  "0 \<le> total_risk_score (calculate_content_risk_score f) \<and>
   total_risk_score (calculate_content_risk_score f) \<le> 1 \<and>
   (forms_count f = 0 \<and> input_fields f = [] \<and> suspicious_keywords f = [] \<and>
    social_engineering_signals f = [] \<and> urgency_indicators f = 0 \<and>
    \<not> javascript_suspicious f \<and> popup_indicators f = 0 \<and> hidden_elements f = 0 \<and>
    iframe_count f = 0 \<and> ads_count f = 0 \<and> suspicious_elements f = [] \<longrightarrow>
    total_risk_score (calculate_content_risk_score f) = 0 \<and>
    risk_factors (calculate_content_risk_score f) = [])"
proof -
  have "total_risk_score (calculate_content_risk_score f) = 0 \<and>
        risk_factors (calculate_content_risk_score f) = []"
    if "forms_count f = 0" "input_fields f = []" "suspicious_keywords f = []"
      "social_engineering_signals f = []" "urgency_indicators f = 0"
      "\<not> javascript_suspicious f" "popup_indicators f = 0" "hidden_elements f = 0"
      "iframe_count f = 0" "ads_count f = 0" "suspicious_elements f = []"
    using that
    by (simp add: calculate_content_risk_score_def Let_def add_factor_def
        password_fields_of_def)
  then show ?thesis
    using risk_score_nonneg [of f] risk_score_le_1 [of f] by blast
qed

theorem total_risk_score_bounds_witness:
  "total_risk_score (calculate_content_risk_score blank_features) = 0 \<and>
   risk_factors (calculate_content_risk_score blank_features) = [] \<and>
   0 \<le> total_risk_score (calculate_content_risk_score scenario_features) \<and>
   total_risk_score (calculate_content_risk_score scenario_features) \<le> 1"
  using total_risk_score_bounds [of blank_features]
    total_risk_score_bounds [of scenario_features]
  by (simp add: blank_features_def)

subsection \<open>Presence of risk factors\<close>

lemma factor_forms_present:
  "map_of (risk_factors (calculate_content_risk_score f)) ''forms_present'' =
     (if forms_count f > 0
      then Some (min (of_int (forms_count f) * 0.35) 0.70) else None)"
  unfolding calculate_content_risk_score_def Let_def
  by (simp add: map_of_add_factor max_def password_fields_of_def filter_empty_conv)

lemma factor_password_fields:
  "map_of (risk_factors (calculate_content_risk_score f)) ''password_fields'' =
     (if \<exists>d\<in>set (input_fields f). str_in ''password'' d
      then Some (0.60) else None)"
  unfolding calculate_content_risk_score_def Let_def
  by (simp add: map_of_add_factor max_def password_fields_of_def filter_empty_conv)

lemma factor_suspicious_keywords:
  "map_of (risk_factors (calculate_content_risk_score f)) ''suspicious_keywords'' =
     (if length (suspicious_keywords f) > 0
      then Some (min (of_nat (length (suspicious_keywords f)) * 0.15) 0.60) else None)"
  unfolding calculate_content_risk_score_def Let_def
  by (simp add: map_of_add_factor max_def password_fields_of_def filter_empty_conv)

lemma factor_social_engineering:
  "map_of (risk_factors (calculate_content_risk_score f)) ''social_engineering'' =
     (if length (social_engineering_signals f) > 0
      then Some (min (of_nat (length (social_engineering_signals f)) * 0.25) 0.70) else None)"
  unfolding calculate_content_risk_score_def Let_def
  by (simp add: map_of_add_factor max_def password_fields_of_def filter_empty_conv)

lemma factor_urgency_tactics:
  "map_of (risk_factors (calculate_content_risk_score f)) ''urgency_tactics'' =
     (if urgency_indicators f > 0
      then Some (min (of_int (urgency_indicators f) * 0.20) 0.50) else None)"
  unfolding calculate_content_risk_score_def Let_def
  by (simp add: map_of_add_factor max_def password_fields_of_def filter_empty_conv)

lemma factor_suspicious_javascript:
  "map_of (risk_factors (calculate_content_risk_score f)) ''suspicious_javascript'' =
     (if javascript_suspicious f
      then Some (0.20) else None)"
  unfolding calculate_content_risk_score_def Let_def
  by (simp add: map_of_add_factor max_def password_fields_of_def filter_empty_conv)

lemma factor_popups:
  "map_of (risk_factors (calculate_content_risk_score f)) ''popups'' =
     (if popup_indicators f > 0
      then Some (min (of_int (popup_indicators f) * 0.25) 0.50) else None)"
  unfolding calculate_content_risk_score_def Let_def
  by (simp add: map_of_add_factor max_def password_fields_of_def filter_empty_conv)

lemma factor_hidden_elements:
  "map_of (risk_factors (calculate_content_risk_score f)) ''hidden_elements'' =
     (if max (hidden_elements f - 5) 0 > 0
      then Some (min (of_int (max (hidden_elements f - 5) 0) * 0.10) 0.40) else None)"
  unfolding calculate_content_risk_score_def Let_def
  by (simp add: map_of_add_factor max_def password_fields_of_def filter_empty_conv)

lemma factor_iframes:
  "map_of (risk_factors (calculate_content_risk_score f)) ''iframes'' =
     (if iframe_count f > 0
      then Some (min (of_int (iframe_count f) * 0.10) 0.20) else None)"
  unfolding calculate_content_risk_score_def Let_def
  by (simp add: map_of_add_factor max_def password_fields_of_def filter_empty_conv)

lemma factor_excessive_ads:
  "map_of (risk_factors (calculate_content_risk_score f)) ''excessive_ads'' =
     (if max (ads_count f - 5) 0 > 0
      then Some (min (of_int (max (ads_count f - 5) 0) * 0.06) 0.20) else None)"
  unfolding calculate_content_risk_score_def Let_def
  by (simp add: map_of_add_factor max_def password_fields_of_def filter_empty_conv)

lemma factor_suspicious_elements:
  "map_of (risk_factors (calculate_content_risk_score f)) ''suspicious_elements'' =
     (if length (suspicious_elements f) > 0
      then Some (min (of_nat (length (suspicious_elements f)) * 0.20) 0.60) else None)"
  unfolding calculate_content_risk_score_def Let_def
  by (simp add: map_of_add_factor max_def password_fields_of_def filter_empty_conv)

text \<open>
  Claim C7. A risk factor is a key of the scorer's output map exactly when its trigger
  holds: a positive count (for hidden elements and ads, a positive excess over the
  allowance of 5), a non-empty list, or a true flag. A key that is present never has the
  value zero, and no other key occurs. The hidden-elements factor is
  \<open>min (max (hidden_count - 5) 0 * 0.10) 0.40\<close>.
\<close>

theorem risk_factor_presence:
  fixes f :: WebpageFeatures
  defines "factor \<equiv> map_of (risk_factors (calculate_content_risk_score f))"
  shows
  "factor ''forms_present'' =
     (if forms_count f > 0
      then Some (min (of_int (forms_count f) * 0.35) 0.70) else None) \<and>
   factor ''password_fields'' =
     (if \<exists>d\<in>set (input_fields f). str_in ''password'' d
      then Some (0.60) else None) \<and>
   factor ''suspicious_keywords'' =
     (if length (suspicious_keywords f) > 0
      then Some (min (of_nat (length (suspicious_keywords f)) * 0.15) 0.60) else None) \<and>
   factor ''social_engineering'' =
     (if length (social_engineering_signals f) > 0
      then Some (min (of_nat (length (social_engineering_signals f)) * 0.25) 0.70) else None) \<and>
   factor ''urgency_tactics'' =
     (if urgency_indicators f > 0
      then Some (min (of_int (urgency_indicators f) * 0.20) 0.50) else None) \<and>
   factor ''suspicious_javascript'' =
     (if javascript_suspicious f
      then Some (0.20) else None) \<and>
   factor ''popups'' =
     (if popup_indicators f > 0
      then Some (min (of_int (popup_indicators f) * 0.25) 0.50) else None) \<and>
   factor ''hidden_elements'' =
     (if max (hidden_elements f - 5) 0 > 0
      then Some (min (of_int (max (hidden_elements f - 5) 0) * 0.10) 0.40) else None) \<and>
   factor ''iframes'' =
     (if iframe_count f > 0
      then Some (min (of_int (iframe_count f) * 0.10) 0.20) else None) \<and>
   factor ''excessive_ads'' =
     (if max (ads_count f - 5) 0 > 0
      then Some (min (of_int (max (ads_count f - 5) 0) * 0.06) 0.20) else None) \<and>
   factor ''suspicious_elements'' =
     (if length (suspicious_elements f) > 0
      then Some (min (of_nat (length (suspicious_elements f)) * 0.20) 0.60) else None) \<and>
   dom factor \<subseteq>
     {''forms_present'', ''password_fields'', ''suspicious_keywords'', ''social_engineering'',
      ''urgency_tactics'', ''suspicious_javascript'', ''popups'', ''hidden_elements'',
      ''iframes'', ''excessive_ads'', ''suspicious_elements''} \<and>
   (\<forall>name v. factor name = Some v \<longrightarrow> 0 < v)"
proof -
  have pos: "\<forall>name v. factor name = Some v \<longrightarrow> 0 < v"
    using risk_factors_pos [of f] unfolding factor_def
    by (metis map_of_SomeD snd_conv)
  have keys: "dom factor \<subseteq>
     {''forms_present'', ''password_fields'', ''suspicious_keywords'', ''social_engineering'',
      ''urgency_tactics'', ''suspicious_javascript'', ''popups'', ''hidden_elements'',
      ''iframes'', ''excessive_ads'', ''suspicious_elements''}"
  proof (rule subsetI, rule ccontr)
    fix name
    assume "name \<in> dom factor"
      and "name \<notin> {''forms_present'', ''password_fields'', ''suspicious_keywords'',
        ''social_engineering'', ''urgency_tactics'', ''suspicious_javascript'', ''popups'',
        ''hidden_elements'', ''iframes'', ''excessive_ads'', ''suspicious_elements''}"
    moreover from this(2) have "factor name = None"
      unfolding factor_def calculate_content_risk_score_def Let_def
      by (simp add: map_of_add_factor)
    ultimately show False by (simp add: dom_def)
  qed
  note lookups =
    factor_forms_present [of f, folded factor_def]
    factor_password_fields [of f, folded factor_def]
    factor_suspicious_keywords [of f, folded factor_def]
    factor_social_engineering [of f, folded factor_def]
    factor_urgency_tactics [of f, folded factor_def]
    factor_suspicious_javascript [of f, folded factor_def]
    factor_popups [of f, folded factor_def]
    factor_hidden_elements [of f, folded factor_def]
    factor_iframes [of f, folded factor_def]
    factor_excessive_ads [of f, folded factor_def]
    factor_suspicious_elements [of f, folded factor_def]
  show ?thesis
    by (intro conjI) (fact lookups pos keys)+
qed

theorem risk_factor_presence_witness:
  "map_of (risk_factors (calculate_content_risk_score (scenario_features\<lparr>hidden_elements := 8\<rparr>)))
     ''hidden_elements'' = Some 0.3 \<and>
   map_of (risk_factors (calculate_content_risk_score scenario_features)) ''hidden_elements'' = None \<and>
   map_of (risk_factors (calculate_content_risk_score scenario_features)) ''forms_present'' = Some 0.7 \<and>
   map_of (risk_factors (calculate_content_risk_score scenario_features)) ''popups'' = None"
  using risk_factor_presence [of "scenario_features\<lparr>hidden_elements := 8\<rparr>"]
    risk_factor_presence [of scenario_features]
  by (simp add: scenario_features_def)

subsection \<open>Domain reputation\<close>

lemma reputation_github:
  "get_domain_reputation init_detector w ''https://github.com/x'' =
     Inr \<lparr> domain = ''github.com'', tld = ''com'', reputation_score = 0.0,
           reputation_reason = [''trusted_domain''] \<rparr>"
  by code_simp

lemma reputation_free_prize:
  "get_domain_reputation init_detector w ''http://free-prize.xyz'' =
     Inr \<lparr> domain = ''free-prize.xyz'', tld = ''xyz'', reputation_score = 0.8,
           reputation_reason = [''suspicious_tld''] \<rparr>"
  by code_simp

lemma reputation_unknown_site:
  "get_domain_reputation init_detector w ''http://unknown-site.io'' =
     Inr \<lparr> domain = ''unknown-site.io'', tld = ''io'', reputation_score = 0.5,
           reputation_reason = [] \<rparr>"
  by code_simp

lemma reputation_of_netloc:
  "urlparse_netloc w url1 = urlparse_netloc w url2 \<Longrightarrow>
     get_domain_reputation self w url1 = get_domain_reputation self w url2"
  by (simp add: get_domain_reputation_def)

lemma reputation_trusted_and_suspicious:
  assumes "urlparse_netloc w url = Inr netloc"
    and "host = (if prefix ''www.'' (lower netloc) then drop 4 (lower netloc) else lower netloc)"
    and "\<exists>td\<in>self_trusted_domains self. suffix td host"
    and "last (split_char CHR ''.'' host) \<in> self_suspicious_tlds self"
  shows "get_domain_reputation self w url =
     Inr \<lparr> domain = host, tld = last (split_char CHR ''.'' host), reputation_score = 0.8,
           reputation_reason = [''trusted_domain'', ''suspicious_tld''] \<rparr>"
  using assms by (simp add: get_domain_reputation_def Let_def)

text \<open>
  Claim C5. The reputation of a URL depends on its host only. It is 0.0 with the reason
  \<open>trusted_domain\<close> for \<^verbatim>\<open>https://github.com/x\<close>, 0.8 with the reason \<open>suspicious_tld\<close>
  for \<^verbatim>\<open>http://free-prize.xyz\<close>, and 0.5 with no reason for \<^verbatim>\<open>http://unknown-site.io\<close>.
  When a host passes both the trusted-suffix check and the suspicious-TLD check, the
  second check overwrites the score to 0.8 (both reasons are recorded).
\<close>

theorem domain_reputation_cases:
  "get_domain_reputation init_detector w ''https://github.com/x'' =
     Inr \<lparr> domain = ''github.com'', tld = ''com'', reputation_score = 0.0,
           reputation_reason = [''trusted_domain''] \<rparr> \<and>
   get_domain_reputation init_detector w ''http://free-prize.xyz'' =
     Inr \<lparr> domain = ''free-prize.xyz'', tld = ''xyz'', reputation_score = 0.8,
           reputation_reason = [''suspicious_tld''] \<rparr> \<and>
   get_domain_reputation init_detector w ''http://unknown-site.io'' =
     Inr \<lparr> domain = ''unknown-site.io'', tld = ''io'', reputation_score = 0.5,
           reputation_reason = [] \<rparr> \<and>
   (urlparse_netloc w url1 = urlparse_netloc w url2 \<longrightarrow>
      get_domain_reputation self w url1 = get_domain_reputation self w url2) \<and>
   (urlparse_netloc w url = Inr netloc \<and>
    host = (if prefix ''www.'' (lower netloc) then drop 4 (lower netloc) else lower netloc) \<and>
    (\<exists>td\<in>self_trusted_domains self. suffix td host) \<and>
    last (split_char CHR ''.'' host) \<in> self_suspicious_tlds self \<longrightarrow>
      get_domain_reputation self w url =
        Inr \<lparr> domain = host, tld = last (split_char CHR ''.'' host), reputation_score = 0.8,
              reputation_reason = [''trusted_domain'', ''suspicious_tld''] \<rparr>)"
proof -
  have "get_domain_reputation self w url1 = get_domain_reputation self w url2"
    if "urlparse_netloc w url1 = urlparse_netloc w url2"
    using that by (rule reputation_of_netloc)
  moreover have "get_domain_reputation self w url =
        Inr \<lparr> domain = host, tld = last (split_char CHR ''.'' host), reputation_score = 0.8,
              reputation_reason = [''trusted_domain'', ''suspicious_tld''] \<rparr>"
    if "urlparse_netloc w url = Inr netloc"
      and "host = (if prefix ''www.'' (lower netloc) then drop 4 (lower netloc)
                   else lower netloc)"
      and "\<exists>td\<in>self_trusted_domains self. suffix td host"
      and "last (split_char CHR ''.'' host) \<in> self_suspicious_tlds self"
    using that by (rule reputation_trusted_and_suspicious)
  ultimately show ?thesis
    using reputation_github [of w] reputation_free_prize [of w] reputation_unknown_site [of w]
    by (intro conjI impI) (assumption | elim conjE | erule meta_mp)+
qed

theorem domain_reputation_cases_witness:
  "get_domain_reputation (init_detector\<lparr>self_trusted_domains := {''pages.xyz''}\<rparr>)
     offline_world ''http://www.pages.xyz/login'' =
     Inr \<lparr> domain = ''pages.xyz'', tld = last (split_char CHR ''.'' ''pages.xyz''),
           reputation_score = 0.8,
           reputation_reason = [''trusted_domain'', ''suspicious_tld''] \<rparr>"
proof -
  have n: "urlparse_netloc offline_world ''http://www.pages.xyz/login'' = Inr ''www.pages.xyz''"
    by code_simp
  have h: "''pages.xyz'' =
      (if prefix ''www.'' (lower ''www.pages.xyz'') then drop 4 (lower ''www.pages.xyz'')
       else lower ''www.pages.xyz'')"
    by code_simp
  have t: "\<exists>td\<in>self_trusted_domains (init_detector\<lparr>self_trusted_domains := {''pages.xyz''}\<rparr>).
      suffix td ''pages.xyz''"
    by simp
  have s: "last (split_char CHR ''.'' ''pages.xyz'') \<in>
      self_suspicious_tlds (init_detector\<lparr>self_trusted_domains := {''pages.xyz''}\<rparr>)"
    by (simp add: init_detector_def)
  note c = domain_reputation_cases
    [where w = offline_world and url = "''http://www.pages.xyz/login''"
       and netloc = "''www.pages.xyz''" and host = "''pages.xyz''"
       and self = "init_detector\<lparr>self_trusted_domains := {''pages.xyz''}\<rparr>",
     THEN conjunct2, THEN conjunct2, THEN conjunct2, THEN conjunct2]
  show ?thesis
    by (rule c [THEN mp]) (intro conjI n h t s)
qed

end
